theory Spec2Isabelle
  imports Main "HOL-Library.Word"
begin

section \<open>Machine integers, platform and library constants\<close>

text \<open>
  The program is C++ compiled for an LP64 platform (Linux or macOS on x86-64): \<open>int\<close> has
  32 bits, \<open>long\<close> and \<open>int64_t\<close> have 64 bits. Arithmetic on them is modelled on words,
  so that a result that does not fit wraps around; comparisons read the words as signed
  values with \<open>sint\<close>.
\<close>

type_synonym cint = "32 word"
type_synonym clong = "64 word"
type_synonym int64_t = "64 word"

text \<open>\<open>std::numeric_limits<int>::max()\<close>\<close>

definition INT_MAX :: int where
  "INT_MAX = 2147483647"

text \<open>\<open>EXIT_FAILURE\<close> of \<open>cstdlib\<close>.\<close>

definition EXIT_FAILURE :: cint where
  "EXIT_FAILURE = 1"

text \<open>
  The constants of \<open>fitsio.h\<close>, the header of the external CFITSIO library, with the
  values that header gives them (the image type codes are the BITPIX values of the FITS
  standard).
\<close>

definition TFLOAT :: cint where "TFLOAT = 42"
definition TDOUBLE :: cint where "TDOUBLE = 82"
definition FLOAT_IMG :: cint where "FLOAT_IMG = - 32"
definition DOUBLE_IMG :: cint where "DOUBLE_IMG = - 64"
definition IMAGE_HDU :: cint where "IMAGE_HDU = 0"
definition ASCII_TBL :: cint where "ASCII_TBL = 1"
definition BINARY_TBL :: cint where "BINARY_TBL = 2"
definition READONLY :: cint where "READONLY = 0"

text \<open>
  The template parameter \<open>T\<close> of the source ranges over \<open>float\<close> and \<open>double\<close>. A pixel is
  the bit pattern of an IEEE 754 value of one of the two widths; a cell of a freshly
  allocated buffer holds no determinate value.
\<close>

datatype precision = float | double

datatype pixel = F32 "32 word" | F64 "64 word" | Indeterminate

text \<open>\<open>std::numeric_limits<T>::quiet_NaN()\<close>\<close>

fun quiet_NaN :: "precision \<Rightarrow> pixel" where
  "quiet_NaN float = F32 0x7FC00000"
| "quiet_NaN double = F64 0x7FF8000000000000"

fun get_type_descr :: "precision \<Rightarrow> string" where
  "get_type_descr float = ''32-bit floats''"
| "get_type_descr double = ''64-bit floats''"

fun get_fits_type :: "precision \<Rightarrow> cint" where
  "get_fits_type float = TFLOAT"
| "get_fits_type double = TDOUBLE"

fun get_fits_bitpix :: "precision \<Rightarrow> cint" where
  "get_fits_bitpix float = FLOAT_IMG"
| "get_fits_bitpix double = DOUBLE_IMG"


section \<open>The process and the external library\<close>

text \<open>
  A \<open>fitsfile*\<close> is a pointer into the library's memory; \<open>0\<close> is \<open>NULL\<close>.
\<close>

type_synonym fitsfile = nat

text \<open>
  Every call into the library is recorded, with the arguments the program passes.
\<close>

datatype call =
    Fits_open_file string cint
  | Fits_get_hdu_type fitsfile
  | Fits_get_img_type fitsfile
  | Fits_get_img_dim fitsfile
  | Fits_get_img_size fitsfile cint "clong \<times> clong"
  | Fits_read_img fitsfile cint int64_t int64_t pixel
  | Fits_close_file fitsfile
  | Fits_create_file string
  | Fits_create_img fitsfile cint cint "clong list"
  | Fits_write_imgnull fitsfile cint int64_t int64_t "pixel list option" pixel
  | Fits_report_error cint

text \<open>
  The library is not part of the program. It is modelled by the answers it gives: for
  each function the status it returns and the values it stores through its output
  parameters. Nothing is assumed about these answers. Every call of the program passes
  a status variable that holds 0, since \<open>fcheck\<close> stops the process at the first
  non-zero status.
\<close>

record cfitsio =
  open_file :: "string \<Rightarrow> cint \<Rightarrow> cint \<times> fitsfile"
  get_hdu_type :: "fitsfile \<Rightarrow> cint \<times> cint"
  get_img_type :: "fitsfile \<Rightarrow> cint \<times> cint"
  get_img_dim :: "fitsfile \<Rightarrow> cint \<times> cint"
  get_img_size :: "fitsfile \<Rightarrow> cint \<Rightarrow> clong \<times> clong \<Rightarrow> cint \<times> (clong \<times> clong)"
  read_img :: "fitsfile \<Rightarrow> cint \<Rightarrow> int64_t \<Rightarrow> int64_t \<Rightarrow> pixel \<Rightarrow> cint \<times> (nat \<Rightarrow> pixel) \<times> cint"
  close_file :: "fitsfile \<Rightarrow> cint"
  create_file :: "string \<Rightarrow> cint \<times> fitsfile"
  create_img :: "fitsfile \<Rightarrow> cint \<Rightarrow> cint \<Rightarrow> clong list \<Rightarrow> cint"
  write_imgnull :: "fitsfile \<Rightarrow> cint \<Rightarrow> int64_t \<Rightarrow> int64_t \<Rightarrow> pixel list option \<Rightarrow> pixel \<Rightarrow> cint"

text \<open>
  The state of the process that the program can change: the calls made so far and the
  characters written to \<open>std::cerr\<close>.
\<close>

record world =
  lib :: cfitsio
  calls :: "call list"
  cerr :: string

text \<open>
  A run either returns a value or ends the process: \<open>std::exit\<close> with an exit code, or
  an abort.
\<close>

datatype stop = Exit cint | Abort

type_synonym 'a prog = "world \<Rightarrow> (stop + 'a) \<times> world"

definition ret :: "'a \<Rightarrow> 'a prog" where
  "ret a w = (Inr a, w)"

definition bind :: "'a prog \<Rightarrow> ('a \<Rightarrow> 'b prog) \<Rightarrow> 'b prog" where
  "bind m k w = (case m w of (Inl e, w') \<Rightarrow> (Inl e, w') | (Inr a, w') \<Rightarrow> k a w')"

definition exit :: "cint \<Rightarrow> 'a prog" where
  "exit c w = (Inl (Exit c), w)"

definition abort :: "'a prog" where
  "abort w = (Inl Abort, w)"

definition called :: "call \<Rightarrow> 'a \<Rightarrow> 'a prog" where
  "called c a w = (Inr a, w\<lparr>calls := calls w @ [c]\<rparr>)"

definition put :: "string \<Rightarrow> unit prog" where
  "put s w = (Inr (), w\<lparr>cerr := cerr w @ s\<rparr>)"

text \<open>\<open>std::endl\<close> writes a newline.\<close>

definition endl :: string where
  "endl = [CHR 0x0A]"

text \<open>\<open>operator<<\<close> on an integer writes its decimal digits.\<close>

definition digit :: "nat \<Rightarrow> char" where
  "digit n = ''0123456789'' ! n"

function show_nat :: "nat \<Rightarrow> string" where
  "show_nat n = (if n < 10 then [digit n] else show_nat (n div 10) @ [digit (n mod 10)])"
  by pat_completeness auto
termination
  by (relation "measure id") auto

declare show_nat.simps [simp del]

definition show_int :: "int \<Rightarrow> string" where
  "show_int i = (if i < 0 then CHR ''-'' # show_nat (nat (- i)) else show_nat (nat i))"


section \<open>The status check\<close>

definition fits_report_error :: "cint \<Rightarrow> unit prog" where
  "fits_report_error s = called (Fits_report_error s) ()"

definition fcheck :: "cint \<Rightarrow> unit prog" where
  "fcheck s = (if s \<noteq> 0 then bind (fits_report_error s) (\<lambda>_. exit EXIT_FAILURE) else ret ())"


section \<open>Dimension validation\<close>

definition verify_dim_2d :: "clong \<times> clong \<Rightarrow> unit prog" where
  "verify_dim_2d naxes =
    (let x = (fst naxes :: int64_t); y = (snd naxes :: int64_t) in
     if sint x < 1 \<or> sint y < 1 then
       bind (put (''image dimensions '' @ show_int (sint x) @ ''x'' @ show_int (sint y)
                   @ '' too small'' @ endl))
         (\<lambda>_. exit EXIT_FAILURE)
     else if sint (x * y) \<ge> INT_MAX then
       bind (put (''image dimensions '' @ show_int (sint x) @ ''x'' @ show_int (sint y)
                   @ '' too large'' @ endl))
         (\<lambda>_. exit EXIT_FAILURE)
     else ret ())"

definition verify_dim_1d :: "clong \<times> clong \<Rightarrow> unit prog" where
  "verify_dim_1d naxes =
    (let x = (fst naxes :: int64_t) in
     if sint x < 1 then
       bind (put (''image dimension '' @ show_int (sint x) @ '' too small'' @ endl))
         (\<lambda>_. exit EXIT_FAILURE)
     else if sint x \<ge> INT_MAX then
       bind (put (''image dimension '' @ show_int (sint x) @ '' too large'' @ endl))
         (\<lambda>_. exit EXIT_FAILURE)
     else ret ())"


section \<open>Containers, settings and drivers\<close>

text \<open>
  Modelled from the spec: the classes \<open>Image1D<T>\<close> and \<open>Image2D<T>\<close>, which the
  source uses and \<open>imageio.h\<close> declares, are not among the source files. After the
  spec's PixelBuffer: a container stores its extents (\<open>int\<close> values) and a buffer that is
  unallocated after construction (the null pointer, \<open>None\<close>); \<open>size()\<close> is \<open>x\<close> or
  \<open>x*y\<close>; \<open>alloc()\<close> allocates exactly that many elements and fails fatally, with a
  process abort after a diagnostic, when called twice or when the extents are invalid.
  Extents are valid when each is at least 1 and their product is below the limit of a
  signed 32-bit index, \<open>2^31 - 1\<close>. The spec fixes that a diagnostic precedes the abort
  but not its wording; \<open>alloc_diagnostic\<close> stands for it. Memory is taken to be
  sufficient.
\<close>

record Image1D =
  x1 :: cint
  p1 :: "pixel list option"

record Image2D =
  x2 :: cint
  y2 :: cint
  p2 :: "pixel list option"

definition size1 :: "Image1D \<Rightarrow> cint" where
  "size1 img = x1 img"

definition size2 :: "Image2D \<Rightarrow> cint" where
  "size2 img = x2 img * y2 img"

definition valid1 :: "Image1D \<Rightarrow> bool" where
  "valid1 img \<longleftrightarrow> 1 \<le> sint (x1 img) \<and> sint (x1 img) < INT_MAX"

definition valid2 :: "Image2D \<Rightarrow> bool" where
  "valid2 img \<longleftrightarrow>
     1 \<le> sint (x2 img) \<and> 1 \<le> sint (y2 img) \<and> sint (x2 img) * sint (y2 img) < INT_MAX"

definition alloc_diagnostic :: string where
  "alloc_diagnostic = ''cannot allocate image'' @ endl"

definition alloc1 :: "Image1D \<Rightarrow> Image1D prog" where
  "alloc1 img =
    (if p1 img \<noteq> None \<or> \<not> valid1 img then bind (put alloc_diagnostic) (\<lambda>_. abort)
     else ret (img\<lparr>p1 := Some (replicate (nat (sint (size1 img))) Indeterminate)\<rparr>))"

definition alloc2 :: "Image2D \<Rightarrow> Image2D prog" where
  "alloc2 img =
    (if p2 img \<noteq> None \<or> \<not> valid2 img then bind (put alloc_diagnostic) (\<lambda>_. abort)
     else ret (img\<lparr>p2 := Some (replicate (nat (sint (size2 img))) Indeterminate)\<rparr>))"

text \<open>
  Modelled from the spec: \<open>Settings\<close>, \<open>VDriver\<close> and \<open>Driver<T,I>\<close> are declared outside
  the source files. \<open>Settings\<close> carries at least the path of the source file; a driver
  owns the settings and exactly one container, for one precision.
\<close>

record Settings =
  source :: string

datatype image = Img1 Image1D | Img2 Image2D

datatype VDriver = Driver precision Settings image


section \<open>Calls into the library\<close>

definition fits_open_file :: "string \<Rightarrow> cint \<Rightarrow> (cint \<times> fitsfile) prog" where
  "fits_open_file filename mode w =
    called (Fits_open_file filename mode) (open_file (lib w) filename mode) w"

definition fits_get_hdu_type :: "fitsfile \<Rightarrow> (cint \<times> cint) prog" where
  "fits_get_hdu_type f w = called (Fits_get_hdu_type f) (get_hdu_type (lib w) f) w"

definition fits_get_img_type :: "fitsfile \<Rightarrow> (cint \<times> cint) prog" where
  "fits_get_img_type f w = called (Fits_get_img_type f) (get_img_type (lib w) f) w"

definition fits_get_img_dim :: "fitsfile \<Rightarrow> (cint \<times> cint) prog" where
  "fits_get_img_dim f w = called (Fits_get_img_dim f) (get_img_dim (lib w) f) w"

definition fits_get_img_size ::
  "fitsfile \<Rightarrow> cint \<Rightarrow> clong \<times> clong \<Rightarrow> (cint \<times> (clong \<times> clong)) prog" where
  "fits_get_img_size f maxdim naxes w =
    called (Fits_get_img_size f maxdim naxes) (get_img_size (lib w) f maxdim naxes) w"

definition fits_read_img ::
  "fitsfile \<Rightarrow> cint \<Rightarrow> int64_t \<Rightarrow> int64_t \<Rightarrow> pixel \<Rightarrow> (cint \<times> (nat \<Rightarrow> pixel) \<times> cint) prog" where
  "fits_read_img f datatype firstelem nelem nulval w =
    called (Fits_read_img f datatype firstelem nelem nulval)
      (read_img (lib w) f datatype firstelem nelem nulval) w"

definition fits_close_file :: "fitsfile \<Rightarrow> cint prog" where
  "fits_close_file f w = called (Fits_close_file f) (close_file (lib w) f) w"

definition fits_create_file :: "string \<Rightarrow> (cint \<times> fitsfile) prog" where
  "fits_create_file filename w =
    called (Fits_create_file filename) (create_file (lib w) filename) w"

definition fits_create_img :: "fitsfile \<Rightarrow> cint \<Rightarrow> cint \<Rightarrow> clong list \<Rightarrow> cint prog" where
  "fits_create_img f bitpix naxis naxes w =
    called (Fits_create_img f bitpix naxis naxes) (create_img (lib w) f bitpix naxis naxes) w"

definition fits_write_imgnull ::
  "fitsfile \<Rightarrow> cint \<Rightarrow> int64_t \<Rightarrow> int64_t \<Rightarrow> pixel list option \<Rightarrow> pixel \<Rightarrow> cint prog" where
  "fits_write_imgnull f datatype firstelem nelem array nulval w =
    called (Fits_write_imgnull f datatype firstelem nelem array nulval)
      (write_imgnull (lib w) f datatype firstelem nelem array nulval) w"

text \<open>
  A successful read stores \<open>nelem\<close> elements through the array pointer it was given: the
  first \<open>nelem\<close> cells of the buffer take the library's elements.
\<close>

definition stored :: "int64_t \<Rightarrow> (nat \<Rightarrow> pixel) \<Rightarrow> pixel list option \<Rightarrow> pixel list option" where
  "stored nelem data buf =
    (case buf of None \<Rightarrow> None
     | Some b \<Rightarrow> Some (map data [0..<nat (sint nelem)] @ drop (nat (sint nelem)) b))"


section \<open>Loading\<close>

definition read_image_data_2d :: "precision \<Rightarrow> string \<Rightarrow> fitsfile \<Rightarrow> Image2D prog" where
  "read_image_data_2d T filename f =
    bind (fits_get_img_size f 2 (0, 0)) (\<lambda>(s, naxes).
    bind (fcheck s) (\<lambda>_.
    bind (verify_dim_2d naxes) (\<lambda>_.
    let x = (scast (fst naxes) :: cint);
        y = (scast (snd naxes) :: cint);
        img = \<lparr>x2 = x, y2 = y, p2 = None\<rparr>;
        nulval = quiet_NaN T
    in
    bind (alloc2 img) (\<lambda>img.
    bind (fits_read_img f (get_fits_type T) 1 (scast (size2 img)) nulval) (\<lambda>(s, data, anynul).
    let img = img\<lparr>p2 := stored (scast (size2 img)) data (p2 img)\<rparr> in
    bind (fcheck s) (\<lambda>_.
    bind (fits_close_file f) (\<lambda>s.
    bind (fcheck s) (\<lambda>_.
    ret img))))))))"

definition read_image_data_1d :: "precision \<Rightarrow> string \<Rightarrow> fitsfile \<Rightarrow> Image1D prog" where
  "read_image_data_1d T filename f =
    bind (fits_get_img_size f 1 (0, 0)) (\<lambda>(s, naxes).
    bind (fcheck s) (\<lambda>_.
    bind (verify_dim_1d naxes) (\<lambda>_.
    let x = (scast (fst naxes) :: cint);
        img = \<lparr>x1 = x, p1 = None\<rparr>;
        nulval = quiet_NaN T
    in
    bind (alloc1 img) (\<lambda>img.
    bind (fits_read_img f (get_fits_type T) 1 (scast (size1 img)) nulval) (\<lambda>(s, data, anynul).
    let img = img\<lparr>p1 := stored (scast (size1 img)) data (p1 img)\<rparr> in
    bind (fcheck s) (\<lambda>_.
    bind (fits_close_file f) (\<lambda>s.
    bind (fcheck s) (\<lambda>_.
    ret img))))))))"

definition open_image_for_reading :: "string \<Rightarrow> fitsfile prog" where
  "open_image_for_reading filename =
    bind (fits_open_file filename READONLY) (\<lambda>(s, f).
    bind (fcheck s) (\<lambda>_.
    bind (fits_get_hdu_type f) (\<lambda>(s, hdutype).
    bind (fcheck s) (\<lambda>_.
    if hdutype \<noteq> IMAGE_HDU then
      bind (put ''expected IMAGE_HDU, got '') (\<lambda>_.
      bind (if hdutype = ASCII_TBL then put ''ASCII_TBL''
            else if hdutype = BINARY_TBL then put ''BINARY_TBL''
            else put (show_int (sint hdutype))) (\<lambda>_.
      bind (put endl) (\<lambda>_.
      exit EXIT_FAILURE)))
    else ret f))))"

definition from_image_helper :: "precision \<Rightarrow> Settings \<Rightarrow> fitsfile \<Rightarrow> VDriver prog" where
  "from_image_helper T settings f =
    bind (fits_get_img_dim f) (\<lambda>(s, naxis).
    bind (fcheck s) (\<lambda>_.
    if naxis = 1 then
      bind (read_image_data_1d T (source settings) f) (\<lambda>img.
      ret (Driver T settings (Img1 img)))
    else if naxis = 2 then
      bind (read_image_data_2d T (source settings) f) (\<lambda>img.
      ret (Driver T settings (Img2 img)))
    else
      bind (put (''expected 1-dimensional or 2-dimensional data, got ''
                  @ show_int (sint naxis) @ ''-dimensional data'' @ endl)) (\<lambda>_.
      exit EXIT_FAILURE)))"

definition from_image :: "Settings \<Rightarrow> VDriver prog" where
  "from_image settings =
    bind (open_image_for_reading (source settings)) (\<lambda>f.
    bind (fits_get_img_type f) (\<lambda>(s, bitpix).
    bind (fcheck s) (\<lambda>_.
    if bitpix = get_fits_bitpix float then from_image_helper float settings f
    else if bitpix = get_fits_bitpix double then from_image_helper double settings f
    else
      bind (put ''unexpected data type: '') (\<lambda>_.
      bind (if sint bitpix < 0 then put (show_int (sint (- bitpix)) @ ''-bit floats'')
            else put (show_int (sint bitpix) @ ''-bit integers'')) (\<lambda>_.
      bind (put endl) (\<lambda>_.
      exit EXIT_FAILURE))))))"


section \<open>Storing\<close>

definition write_image_2d :: "precision \<Rightarrow> string \<Rightarrow> Image2D \<Rightarrow> unit prog" where
  "write_image_2d T filename img =
    bind (fits_create_file filename) (\<lambda>(s, f).
    bind (fcheck s) (\<lambda>_.
    let naxes = [scast (x2 img), scast (y2 img)] in
    bind (fits_create_img f (get_fits_bitpix T) 2 naxes) (\<lambda>s.
    bind (fcheck s) (\<lambda>_.
    bind (fits_write_imgnull f (get_fits_type T) 1 (scast (size2 img)) (p2 img) (quiet_NaN T)) (\<lambda>s.
    bind (fcheck s) (\<lambda>_.
    bind (fits_close_file f) (\<lambda>s.
    fcheck s)))))))"

definition write_image_1d :: "precision \<Rightarrow> string \<Rightarrow> Image1D \<Rightarrow> unit prog" where
  "write_image_1d T filename img =
    bind (fits_create_file filename) (\<lambda>(s, f).
    bind (fcheck s) (\<lambda>_.
    let naxes = [scast (x1 img)] in
    bind (fits_create_img f (get_fits_bitpix T) 1 naxes) (\<lambda>s.
    bind (fcheck s) (\<lambda>_.
    bind (fits_write_imgnull f (get_fits_type T) 1 (scast (size1 img)) (p1 img) (quiet_NaN T)) (\<lambda>s.
    bind (fcheck s) (\<lambda>_.
    bind (fits_close_file f) (\<lambda>s.
    fcheck s)))))))"


section \<open>The order of loading\<close>

text \<open>
  The steps of a load, in the order the dispatch goes through them: open the file (0),
  read the type of its first data unit (1), read the storage tag (2), read the axis
  count (3), then the load proper: read the extents (4), read the pixels (5) and close
  the file (6). Reporting a library error (7) ends a run; the calls that create and
  write a file (8) belong to storing.
\<close>

fun stage :: "call \<Rightarrow> nat" where
  "stage (Fits_open_file filename mode) = 0"
| "stage (Fits_get_hdu_type f) = 1"
| "stage (Fits_get_img_type f) = 2"
| "stage (Fits_get_img_dim f) = 3"
| "stage (Fits_get_img_size f maxdim naxes) = 4"
| "stage (Fits_read_img f datatype firstelem nelem nulval) = 5"
| "stage (Fits_close_file f) = 6"
| "stage (Fits_report_error s) = 7"
| "stage (Fits_create_file filename) = 8"
| "stage (Fits_create_img f bitpix naxis naxes) = 8"
| "stage (Fits_write_imgnull f datatype firstelem nelem array nulval) = 8"

text \<open>
  A list of calls follows the order when it consists of the first steps of a load, each
  made once and none left out.
\<close>

definition follows_order :: "call list \<Rightarrow> bool" where
  "follows_order cs \<longleftrightarrow> map stage cs = take (length cs) [0, 1, 2, 3, 4, 5, 6]"


section \<open>Statuses and what a run does with them\<close>

text \<open>
  The status that the library returns for a recorded call. Reporting an error returns no
  status.
\<close>

fun status_of :: "cfitsio \<Rightarrow> call \<Rightarrow> cint" where
  "status_of L (Fits_open_file filename mode) = fst (open_file L filename mode)"
| "status_of L (Fits_get_hdu_type f) = fst (get_hdu_type L f)"
| "status_of L (Fits_get_img_type f) = fst (get_img_type L f)"
| "status_of L (Fits_get_img_dim f) = fst (get_img_dim L f)"
| "status_of L (Fits_get_img_size f maxdim naxes) = fst (get_img_size L f maxdim naxes)"
| "status_of L (Fits_read_img f datatype firstelem nelem nulval) =
     fst (read_img L f datatype firstelem nelem nulval)"
| "status_of L (Fits_close_file f) = close_file L f"
| "status_of L (Fits_create_file filename) = fst (create_file L filename)"
| "status_of L (Fits_create_img f bitpix naxis naxes) = create_img L f bitpix naxis naxes"
| "status_of L (Fits_write_imgnull f datatype firstelem nelem array nulval) =
     write_imgnull L f datatype firstelem nelem array nulval"
| "status_of L (Fits_report_error s) = 0"

text \<open>
  A list of calls is checked when the run goes on after a call only if its status is
  zero: a call with another status is followed by the report of that status and by
  nothing else.
\<close>

fun statuses_checked :: "cfitsio \<Rightarrow> call list \<Rightarrow> bool" where
  "statuses_checked L [] = True"
| "statuses_checked L (c # cs) =
     (if status_of L c = 0 then statuses_checked L cs
      else cs = [Fits_report_error (status_of L c)])"

text \<open>The calls that a run from \<open>w\<close> to \<open>w'\<close> has added.\<close>

definition new_calls :: "world \<Rightarrow> world \<Rightarrow> call list" where
  "new_calls w w' = drop (length (calls w)) (calls w')"

text \<open>
  A run from \<open>w\<close> to \<open>w'\<close> with result \<open>r\<close> propagates no status when its calls are
  checked, a run that returns has seen status zero only, and a run that has seen another
  status has ended the process with \<open>EXIT_FAILURE\<close>.
\<close>

definition no_status_propagated :: "world \<Rightarrow> stop + 'a \<Rightarrow> world \<Rightarrow> bool" where
  "no_status_propagated w r w' \<longleftrightarrow>
     take (length (calls w)) (calls w') = calls w \<and>
     statuses_checked (lib w) (new_calls w w') \<and>
     (case r of
        Inr a \<Rightarrow> list_all (\<lambda>c. status_of (lib w) c = 0) (new_calls w w')
      | Inl e \<Rightarrow>
          list_ex (\<lambda>c. status_of (lib w) c \<noteq> 0) (new_calls w w') \<longrightarrow> e = Exit EXIT_FAILURE)"


section \<open>Stored files\<close>







section \<open>Example files\<close>

text \<open>
  A library that opens every path as handle 1 and answers every call with status 0: the
  first data unit has the given type, storage tag, axis count and extents, and pixel
  \<open>i\<close> of the data is the bit pattern \<open>i\<close>, of the width of the null value that the
  read passes.
\<close>

definition example_lib :: "cint \<Rightarrow> cint \<Rightarrow> cint \<Rightarrow> clong \<times> clong \<Rightarrow> cfitsio" where
  "example_lib hdutype bitpix naxis naxes =
    \<lparr>open_file = (\<lambda>filename mode. (0, 1)),
     get_hdu_type = (\<lambda>f. (0, hdutype)),
     get_img_type = (\<lambda>f. (0, bitpix)),
     get_img_dim = (\<lambda>f. (0, naxis)),
     get_img_size = (\<lambda>f maxdim a. (0, naxes)),
     read_img = (\<lambda>f datatype firstelem nelem nulval.
       (0, (\<lambda>i. case nulval of F64 v \<Rightarrow> F64 (of_nat i) | _ \<Rightarrow> F32 (of_nat i)), 0)),
     close_file = (\<lambda>f. 0),
     create_file = (\<lambda>filename. (0, 1)),
     create_img = (\<lambda>f bitpix naxis naxes. 0),
     write_imgnull = (\<lambda>f datatype firstelem nelem array nulval. 0)\<rparr>"

definition example_world :: "cint \<Rightarrow> cint \<Rightarrow> cint \<Rightarrow> clong \<times> clong \<Rightarrow> world" where
  "example_world hdutype bitpix naxis naxes =
    \<lparr>lib = example_lib hdutype bitpix naxis naxes, calls = [], cerr = []\<rparr>"


text \<open>
  The same library for a file that cannot be opened: the open returns status 104.
\<close>

definition unopened_world :: world where
  "unopened_world =
    \<lparr>lib = (example_lib 0 (- 32) 2 (3, 2))\<lparr>open_file := (\<lambda>filename mode. (104, 0))\<rparr>,
     calls = [], cerr = []\<rparr>"



section \<open>Running a program\<close>

lemma bind_ret: "bind (ret a) k w = k a w"
  by (simp add: bind_def ret_def)

lemma bind_exit: "bind (exit c) k w = (Inl (Exit c), w)"
  by (simp add: bind_def exit_def)

lemma bind_abort: "bind abort k w = (Inl Abort, w)"
  by (simp add: bind_def abort_def)

lemma bind_called: "bind (called c a) k w = k a (w\<lparr>calls := calls w @ [c]\<rparr>)"
  by (simp add: bind_def called_def)

lemma bind_put: "bind (put s) k w = k () (w\<lparr>cerr := cerr w @ s\<rparr>)"
  by (simp add: bind_def put_def)

lemma bind_if: "bind (if c then m else n) k w = (if c then bind m k w else bind n k w)"
  by simp

lemma bind_fcheck:
  "bind (fcheck s) k w =
    (if s \<noteq> 0
     then (Inl (Exit EXIT_FAILURE), w\<lparr>calls := calls w @ [Fits_report_error s]\<rparr>)
     else k () w)"
  by (simp add: fcheck_def fits_report_error_def bind_def called_def exit_def ret_def)


lemma bind_assoc: "bind (bind m f) k w = bind m (\<lambda>a. bind (f a) k) w"
  by (simp add: bind_def split: prod.splits sum.splits)

lemmas run = bind_assoc bind_ret bind_exit bind_abort bind_called bind_put bind_if bind_fcheck

lemma lib_run:
  "bind (fits_open_file filename mode) k1 w =
     k1 (open_file (lib w) filename mode) (w\<lparr>calls := calls w @ [Fits_open_file filename mode]\<rparr>)"
  "bind (fits_get_hdu_type f) k2 w =
     k2 (get_hdu_type (lib w) f) (w\<lparr>calls := calls w @ [Fits_get_hdu_type f]\<rparr>)"
  "bind (fits_get_img_type f) k2 w =
     k2 (get_img_type (lib w) f) (w\<lparr>calls := calls w @ [Fits_get_img_type f]\<rparr>)"
  "bind (fits_get_img_dim f) k2 w =
     k2 (get_img_dim (lib w) f) (w\<lparr>calls := calls w @ [Fits_get_img_dim f]\<rparr>)"
  "bind (fits_get_img_size f maxdim naxes) k3 w =
     k3 (get_img_size (lib w) f maxdim naxes)
       (w\<lparr>calls := calls w @ [Fits_get_img_size f maxdim naxes]\<rparr>)"
  "bind (fits_read_img f dt fe ne nv) k4 w =
     k4 (read_img (lib w) f dt fe ne nv) (w\<lparr>calls := calls w @ [Fits_read_img f dt fe ne nv]\<rparr>)"
  "bind (fits_close_file f) k5 w =
     k5 (close_file (lib w) f) (w\<lparr>calls := calls w @ [Fits_close_file f]\<rparr>)"
  by (simp_all add: bind_def called_def fits_open_file_def fits_get_hdu_type_def
      fits_get_img_type_def fits_get_img_dim_def fits_get_img_size_def fits_read_img_def
      fits_close_file_def)

lemmas load_defs = from_image_def open_image_for_reading_def from_image_helper_def
  read_image_data_1d_def read_image_data_2d_def verify_dim_1d_def verify_dim_2d_def
  alloc1_def alloc2_def valid1_def valid2_def

lemmas stop_defs = ret_def exit_def abort_def

lemmas const_defs = READONLY_def IMAGE_HDU_def ASCII_TBL_def BINARY_TBL_def EXIT_FAILURE_def
  FLOAT_IMG_def DOUBLE_IMG_def TFLOAT_def TDOUBLE_def INT_MAX_def

lemmas ex_defs = example_world_def example_lib_def

lemmas show_defs = show_int_def show_nat.simps digit_def


section \<open>Signed values of casts and products\<close>

lemma sint_scast_narrow:
  assumes "- (2 ^ 31) \<le> sint (a :: 64 word)" and "sint a < 2 ^ 31"
  shows "sint (scast a :: 32 word) = sint a"
proof -
  have "sint (word_of_int (sint a) :: 32 word) = signed_take_bit 31 (sint a)"
    by (simp only: sint_sbintrunc') simp
  also have "\<dots> = sint a"
    using assms by (simp only: signed_take_bit_int_eq_self_iff)
  finally show ?thesis by (simp only: scast_eq)
qed

lemma sint_mult_64:
  "- (2 ^ 63) \<le> sint (a :: 64 word) * sint b \<Longrightarrow> sint a * sint b < 2 ^ 63
    \<Longrightarrow> sint (a * b) = sint a * sint b"
  by (simp only: sint_word_mult signed_take_bit_int_eq_self_iff) simp

lemma sint_mult_32:
  "- (2 ^ 31) \<le> sint (a :: 32 word) * sint b \<Longrightarrow> sint a * sint b < 2 ^ 31
    \<Longrightarrow> sint (a * b) = sint a * sint b"
  by (simp only: sint_word_mult signed_take_bit_int_eq_self_iff) simp

lemma sint_scast_widen: "sint (scast (c :: 32 word) :: 64 word) = sint c"
  by (simp add: sint_up_scast is_up)


section \<open>The structural gate of the open step\<close>

text \<open>
  C6. When the library opens the file and reports the type of its first data unit, and
  that unit is a table, \<open>open_image_for_reading\<close> ends the process with
  \<open>EXIT_FAILURE\<close> after a diagnostic that names the kind of table, \<open>ASCII_TBL\<close> or
  \<open>BINARY_TBL\<close>; the only calls it has made are the open and the query of the unit
  type, so no pixel-level work is done. When the unit is an image it returns the handle
  that the library opened.
\<close>

theorem open_image_for_reading_structural_gate:
  assumes "open_file (lib w) filename READONLY = (0, f)"
    and "get_hdu_type (lib w) f = (0, hdutype)"
  shows
   "(hdutype = ASCII_TBL \<longrightarrow>
       open_image_for_reading filename w =
         (Inl (Exit EXIT_FAILURE),
          w\<lparr>calls := calls w @ [Fits_open_file filename READONLY, Fits_get_hdu_type f],
            cerr := cerr w @ ''expected IMAGE_HDU, got ASCII_TBL'' @ endl\<rparr>)) \<and>
    (hdutype = BINARY_TBL \<longrightarrow>
       open_image_for_reading filename w =
         (Inl (Exit EXIT_FAILURE),
          w\<lparr>calls := calls w @ [Fits_open_file filename READONLY, Fits_get_hdu_type f],
            cerr := cerr w @ ''expected IMAGE_HDU, got BINARY_TBL'' @ endl\<rparr>)) \<and>
    (hdutype = IMAGE_HDU \<longrightarrow>
       open_image_for_reading filename w =
         (Inr f, w\<lparr>calls := calls w @ [Fits_open_file filename READONLY, Fits_get_hdu_type f]\<rparr>))"
  using assms
  by (simp add: open_image_for_reading_def run lib_run stop_defs IMAGE_HDU_def ASCII_TBL_def
      BINARY_TBL_def)

theorem open_image_for_reading_structural_gate_witness:
  "open_image_for_reading ''t.fits'' (example_world 1 8 0 (0, 0)) =
     (Inl (Exit 1),
      \<lparr>lib = example_lib 1 8 0 (0, 0),
       calls = [Fits_open_file ''t.fits'' 0, Fits_get_hdu_type 1],
       cerr = ''expected IMAGE_HDU, got ASCII_TBL'' @ endl\<rparr>) \<and>
   open_image_for_reading ''t.fits'' (example_world 2 8 0 (0, 0)) =
     (Inl (Exit 1),
      \<lparr>lib = example_lib 2 8 0 (0, 0),
       calls = [Fits_open_file ''t.fits'' 0, Fits_get_hdu_type 1],
       cerr = ''expected IMAGE_HDU, got BINARY_TBL'' @ endl\<rparr>) \<and>
   open_image_for_reading ''m.fits'' (example_world 0 (- 32) 2 (3, 2)) =
     (Inr 1,
      \<lparr>lib = example_lib 0 (- 32) 2 (3, 2),
       calls = [Fits_open_file ''m.fits'' 0, Fits_get_hdu_type 1],
       cerr = []\<rparr>)"
  using open_image_for_reading_structural_gate
      [of "example_world 1 8 0 (0, 0)" "''t.fits''" 1 1]
    open_image_for_reading_structural_gate
      [of "example_world 2 8 0 (0, 0)" "''t.fits''" 1 2]
    open_image_for_reading_structural_gate
      [of "example_world 0 (- 32) 2 (3, 2)" "''m.fits''" 1 0]
  by (simp add: ex_defs const_defs)

text \<open>
  C10. When the first data unit is neither an image nor one of the two kinds of table,
  \<open>open_image_for_reading\<close> still ends the process with \<open>EXIT_FAILURE\<close>, and the
  diagnostic carries the numeric code of the unit type in decimal in place of a name.
\<close>

theorem open_image_for_reading_other_unit:
  assumes "open_file (lib w) filename READONLY = (0, f)"
    and "get_hdu_type (lib w) f = (0, hdutype)"
    and "hdutype \<noteq> IMAGE_HDU" and "hdutype \<noteq> ASCII_TBL" and "hdutype \<noteq> BINARY_TBL"
  shows
   "open_image_for_reading filename w =
      (Inl (Exit EXIT_FAILURE),
       w\<lparr>calls := calls w @ [Fits_open_file filename READONLY, Fits_get_hdu_type f],
         cerr := cerr w @ ''expected IMAGE_HDU, got '' @ show_int (sint hdutype) @ endl\<rparr>)"
  using assms
  by (simp add: open_image_for_reading_def run lib_run stop_defs)

theorem open_image_for_reading_other_unit_witness:
  "open_image_for_reading ''u.fits'' (example_world 7 8 0 (0, 0)) =
     (Inl (Exit 1),
      \<lparr>lib = example_lib 7 8 0 (0, 0),
       calls = [Fits_open_file ''u.fits'' 0, Fits_get_hdu_type 1],
       cerr = ''expected IMAGE_HDU, got 7'' @ endl\<rparr>)"
  using open_image_for_reading_other_unit [of "example_world 7 8 0 (0, 0)" "''u.fits''" 1 7]
  by (simp add: ex_defs const_defs show_defs)


section \<open>The precision gate\<close>

lemma sint_neg_cint: "sint b \<noteq> - (2 ^ 31) \<Longrightarrow> sint (- b) = - sint (b :: cint)"
proof -
  assume a: "sint b \<noteq> - (2 ^ 31)"
  have "- (2 ^ 31) \<le> sint b" "sint b < 2 ^ 31"
    using sint_range_size [of b] by (simp_all add: word_size)
  with a have "- (2 ^ 31) \<le> - sint b \<and> - sint b < 2 ^ 31" by simp
  then show ?thesis
    by (simp only: sint_word_ariths signed_take_bit_int_eq_self_iff) simp
qed

text \<open>
  When the open step has returned a handle and the library reports the storage tag,
  \<open>from_image\<close> continues with the \<open>float\<close> instantiation of the helper when the tag is
  \<open>FLOAT_IMG\<close> and with the \<open>double\<close> instantiation when the tag is \<open>DOUBLE_IMG\<close>. For
  every other tag it ends the process with \<open>EXIT_FAILURE\<close> after the diagnostic
  \<open>unexpected data type: N-bit floats\<close>, with \<open>N\<close> the result of \<open>-bitpix\<close> in \<open>int\<close>, when
  the tag is negative, and \<open>unexpected data type: N-bit integers\<close>, with \<open>N\<close> the tag, when
  it is not. By \<open>sint_neg_cint\<close> the negation in \<open>int\<close> is the negation of the value for
  every tag but the least \<open>int\<close>.
\<close>

lemma from_image_precision_gate:
  assumes "open_image_for_reading (source settings) w = (Inr f, w1)"
    and "get_img_type (lib w1) f = (0, bitpix)"
  shows
   "(bitpix = FLOAT_IMG \<longrightarrow>
       from_image settings w =
         from_image_helper float settings f (w1\<lparr>calls := calls w1 @ [Fits_get_img_type f]\<rparr>)) \<and>
    (bitpix = DOUBLE_IMG \<longrightarrow>
       from_image settings w =
         from_image_helper double settings f (w1\<lparr>calls := calls w1 @ [Fits_get_img_type f]\<rparr>)) \<and>
    (bitpix \<noteq> FLOAT_IMG \<and> bitpix \<noteq> DOUBLE_IMG \<and> sint bitpix < 0 \<longrightarrow>
       from_image settings w =
         (Inl (Exit EXIT_FAILURE),
          w1\<lparr>calls := calls w1 @ [Fits_get_img_type f],
             cerr := cerr w1 @ ''unexpected data type: '' @ show_int (sint (- bitpix))
               @ ''-bit floats'' @ endl\<rparr>)) \<and>
    (bitpix \<noteq> FLOAT_IMG \<and> bitpix \<noteq> DOUBLE_IMG \<and> 0 \<le> sint bitpix \<longrightarrow>
       from_image settings w =
         (Inl (Exit EXIT_FAILURE),
          w1\<lparr>calls := calls w1 @ [Fits_get_img_type f],
             cerr := cerr w1 @ ''unexpected data type: '' @ show_int (sint bitpix)
               @ ''-bit integers'' @ endl\<rparr>))"
proof -
  have "from_image settings w =
    bind (fits_get_img_type f) (\<lambda>(s, bitpix).
    bind (fcheck s) (\<lambda>_.
    if bitpix = get_fits_bitpix float then from_image_helper float settings f
    else if bitpix = get_fits_bitpix double then from_image_helper double settings f
    else
      bind (put ''unexpected data type: '') (\<lambda>_.
      bind (if sint bitpix < 0 then put (show_int (sint (- bitpix)) @ ''-bit floats'')
            else put (show_int (sint bitpix) @ ''-bit integers'')) (\<lambda>_.
      bind (put endl) (\<lambda>_.
      exit EXIT_FAILURE))))) w1"
    using assms(1) by (simp add: from_image_def bind_def)
  with assms(2) show ?thesis
    by (simp add: run lib_run stop_defs FLOAT_IMG_def DOUBLE_IMG_def)
qed

lemma from_image_precision_gate_examples:
  "from_image \<lparr>source = ''h.fits''\<rparr> (example_world 0 (- 16) 2 (3, 2)) =
     (Inl (Exit 1),
      \<lparr>lib = example_lib 0 (- 16) 2 (3, 2),
       calls = [Fits_open_file ''h.fits'' 0, Fits_get_hdu_type 1, Fits_get_img_type 1],
       cerr = ''unexpected data type: 16-bit floats'' @ endl\<rparr>) \<and>
   from_image \<lparr>source = ''i.fits''\<rparr> (example_world 0 16 2 (3, 2)) =
     (Inl (Exit 1),
      \<lparr>lib = example_lib 0 16 2 (3, 2),
       calls = [Fits_open_file ''i.fits'' 0, Fits_get_hdu_type 1, Fits_get_img_type 1],
       cerr = ''unexpected data type: 16-bit integers'' @ endl\<rparr>) \<and>
   from_image \<lparr>source = ''f.fits''\<rparr> (example_world 0 (- 32) 3 (3, 2)) =
     from_image_helper float \<lparr>source = ''f.fits''\<rparr> 1
       \<lparr>lib = example_lib 0 (- 32) 3 (3, 2),
        calls = [Fits_open_file ''f.fits'' 0, Fits_get_hdu_type 1, Fits_get_img_type 1],
        cerr = []\<rparr> \<and>
   from_image \<lparr>source = ''d.fits''\<rparr> (example_world 0 (- 64) 3 (3, 2)) =
     from_image_helper double \<lparr>source = ''d.fits''\<rparr> 1
       \<lparr>lib = example_lib 0 (- 64) 3 (3, 2),
        calls = [Fits_open_file ''d.fits'' 0, Fits_get_hdu_type 1, Fits_get_img_type 1],
        cerr = []\<rparr>"
proof -
  have o: "open_image_for_reading (source \<lparr>source = n\<rparr>) (example_world 0 b a x) =
      (Inr 1, \<lparr>lib = example_lib 0 b a x,
        calls = [Fits_open_file n 0, Fits_get_hdu_type 1], cerr = []\<rparr>)" for n b a x
    by (simp add: open_image_for_reading_def run lib_run stop_defs ex_defs const_defs)
  have t: "get_img_type (lib \<lparr>lib = example_lib 0 b a x, calls = c, cerr = e\<rparr>) 1 = (0, b)"
    for b a x c e
    by (simp add: ex_defs)
  show ?thesis
    using from_image_precision_gate [OF o [of "''h.fits''" "- 16" 2 "(3, 2)"] t]
      from_image_precision_gate [OF o [of "''i.fits''" 16 2 "(3, 2)"] t]
      from_image_precision_gate [OF o [of "''f.fits''" "- 32" 3 "(3, 2)"] t]
      from_image_precision_gate [OF o [of "''d.fits''" "- 64" 3 "(3, 2)"] t]
    by (simp add: const_defs show_defs)
qed


text \<open>
  C4. The claim is that for every unsupported negative tag the diagnostic reads
  \<open>N-bit floats\<close> with \<open>N\<close> the negated tag. For the tag \<open>-2^31\<close>, the least \<open>int\<close>, the
  negated tag is \<open>2^31\<close>, but \<open>-bitpix\<close> overflows in \<open>int\<close> and wraps around to the tag
  itself: the diagnostic reads \<open>-2147483648-bit floats\<close>.
\<close>

theorem from_image_least_tag_diagnostic:
  "from_image \<lparr>source = ''l.fits''\<rparr> (example_world 0 (- 2147483648) 2 (3, 2)) =
     (Inl (Exit 1),
      \<lparr>lib = example_lib 0 (- 2147483648) 2 (3, 2),
       calls = [Fits_open_file ''l.fits'' 0, Fits_get_hdu_type 1, Fits_get_img_type 1],
       cerr = ''unexpected data type: -2147483648-bit floats'' @ endl\<rparr>) \<and>
   sint (- 2147483648 :: cint) < 0 \<and>
   show_int (- sint (- 2147483648 :: cint)) = ''2147483648''"
  by (simp add: load_defs const_defs ex_defs show_defs Let_def run lib_run stop_defs)


section \<open>The rank gate\<close>

text \<open>
  C5. When the library reports the axis count, \<open>from_image_helper\<close> continues with the
  1-D loader and wraps its container when the count is 1, continues with the 2-D loader
  and wraps its container when the count is 2, and for every other count (0 and 3
  among them) ends the process with \<open>EXIT_FAILURE\<close> after a diagnostic that carries the
  axis count in decimal.
\<close>

theorem from_image_helper_rank_gate:
  assumes "get_img_dim (lib w) f = (0, naxis)"
  shows
   "(naxis = 1 \<longrightarrow>
       from_image_helper T settings f w =
         bind (read_image_data_1d T (source settings) f)
           (\<lambda>img. ret (Driver T settings (Img1 img)))
           (w\<lparr>calls := calls w @ [Fits_get_img_dim f]\<rparr>)) \<and>
    (naxis = 2 \<longrightarrow>
       from_image_helper T settings f w =
         bind (read_image_data_2d T (source settings) f)
           (\<lambda>img. ret (Driver T settings (Img2 img)))
           (w\<lparr>calls := calls w @ [Fits_get_img_dim f]\<rparr>)) \<and>
    (naxis \<noteq> 1 \<and> naxis \<noteq> 2 \<longrightarrow>
       from_image_helper T settings f w =
         (Inl (Exit EXIT_FAILURE),
          w\<lparr>calls := calls w @ [Fits_get_img_dim f],
            cerr := cerr w @ ''expected 1-dimensional or 2-dimensional data, got ''
              @ show_int (sint naxis) @ ''-dimensional data'' @ endl\<rparr>))"
  using assms
  by (simp add: from_image_helper_def run lib_run stop_defs)

theorem from_image_helper_rank_gate_witness:
  "from_image_helper float \<lparr>source = ''c.fits''\<rparr> 1 (example_world 0 (- 32) 3 (3, 2)) =
     (Inl (Exit 1),
      \<lparr>lib = example_lib 0 (- 32) 3 (3, 2), calls = [Fits_get_img_dim 1],
       cerr = ''expected 1-dimensional or 2-dimensional data, got 3-dimensional data'' @ endl\<rparr>) \<and>
   from_image_helper double \<lparr>source = ''e.fits''\<rparr> 1 (example_world 0 (- 64) 0 (3, 2)) =
     (Inl (Exit 1),
      \<lparr>lib = example_lib 0 (- 64) 0 (3, 2), calls = [Fits_get_img_dim 1],
       cerr = ''expected 1-dimensional or 2-dimensional data, got 0-dimensional data'' @ endl\<rparr>) \<and>
   from_image_helper float \<lparr>source = ''v.fits''\<rparr> 1 (example_world 0 (- 32) 1 (4, 0)) =
     (Inr (Driver float \<lparr>source = ''v.fits''\<rparr>
        (Img1 \<lparr>x1 = 4, p1 = Some [F32 0, F32 1, F32 2, F32 3]\<rparr>)),
      \<lparr>lib = example_lib 0 (- 32) 1 (4, 0),
       calls = [Fits_get_img_dim 1, Fits_get_img_size 1 1 (0, 0),
         Fits_read_img 1 42 1 4 (F32 0x7FC00000), Fits_close_file 1],
       cerr = []\<rparr>) \<and>
   from_image_helper double \<lparr>source = ''m.fits''\<rparr> 1 (example_world 0 (- 64) 2 (3, 2)) =
     (Inr (Driver double \<lparr>source = ''m.fits''\<rparr>
        (Img2 \<lparr>x2 = 3, y2 = 2, p2 = Some [F64 0, F64 1, F64 2, F64 3, F64 4, F64 5]\<rparr>)),
      \<lparr>lib = example_lib 0 (- 64) 2 (3, 2),
       calls = [Fits_get_img_dim 1, Fits_get_img_size 1 2 (0, 0),
         Fits_read_img 1 82 1 6 (F64 0x7FF8000000000000), Fits_close_file 1],
       cerr = []\<rparr>)"
proof -
  have d: "get_img_dim (lib (example_world h b a x)) 1 = (0, a)" for h b a x
    by (simp add: ex_defs)
  show ?thesis
    using
      from_image_helper_rank_gate [OF d [of 0 "- 32" 3 "(3, 2)"],
        where T = float and settings = "\<lparr>source = ''c.fits''\<rparr>"]
      from_image_helper_rank_gate [OF d [of 0 "- 64" 0 "(3, 2)"],
        where T = double and settings = "\<lparr>source = ''e.fits''\<rparr>"]
      from_image_helper_rank_gate [OF d [of 0 "- 32" 1 "(4, 0)"],
        where T = float and settings = "\<lparr>source = ''v.fits''\<rparr>"]
      from_image_helper_rank_gate [OF d [of 0 "- 64" 2 "(3, 2)"],
        where T = double and settings = "\<lparr>source = ''m.fits''\<rparr>"]
    by (simp add: const_defs show_defs ex_defs
        read_image_data_1d_def read_image_data_2d_def verify_dim_1d_def verify_dim_2d_def
        alloc1_def alloc2_def valid1_def valid2_def size1_def size2_def stored_def Let_def run
        lib_run stop_defs eval_nat_numeral)
qed


section \<open>The unused filename parameter\<close>

text \<open>
  C9. Both load helpers, at each precision, are the same program whatever filename they
  are given: for the same handle they return the same container and leave the same
  process state, from every state.
\<close>

theorem read_image_data_filename_unused:
  "read_image_data_1d T filename f = read_image_data_1d T filename' f \<and>
   read_image_data_2d T filename f = read_image_data_2d T filename' f"
  by (simp add: read_image_data_1d_def read_image_data_2d_def)


section \<open>What the dimension validation accepts\<close>

text \<open>
  The 1-D check stops the process exactly when the extent is below 1 or at least
  \<open>2^31 - 1\<close>. The 2-D check does the same for the product of the extents as long as
  that product fits into 64 bits.
\<close>

lemma verify_dim_1d_fatal_iff:
  "fst (verify_dim_1d naxes w) \<noteq> Inr () \<longleftrightarrow>
     sint (fst naxes) < 1 \<or> 2 ^ 31 - 1 \<le> sint (fst naxes)"
  by (simp add: verify_dim_1d_def Let_def INT_MAX_def run stop_defs)

lemma verify_dim_2d_fatal_iff:
  assumes "sint (fst naxes) * sint (snd naxes) < 2 ^ 63"
  shows "fst (verify_dim_2d naxes w) \<noteq> Inr () \<longleftrightarrow>
     sint (fst naxes) < 1 \<or> sint (snd naxes) < 1 \<or>
     2 ^ 31 - 1 \<le> sint (fst naxes) * sint (snd naxes)"
proof (cases "sint (fst naxes) < 1 \<or> sint (snd naxes) < 1")
  case True
  then show ?thesis
    by (auto simp add: verify_dim_2d_def Let_def INT_MAX_def run stop_defs)
next
  case False
  then have "0 \<le> sint (fst naxes) * sint (snd naxes)" by simp
  with assms have "sint (fst naxes * snd naxes) = sint (fst naxes) * sint (snd naxes)"
    by (intro sint_mult_64) simp_all
  with False show ?thesis
    by (simp add: verify_dim_2d_def Let_def INT_MAX_def run stop_defs)
qed

lemma verify_dim_accepts_unit:
  "verify_dim_1d (1, 0) w = (Inr (), w) \<and> verify_dim_2d (1, 1) w = (Inr (), w)"
  by (simp add: verify_dim_1d_def verify_dim_2d_def Let_def INT_MAX_def stop_defs)

lemma verify_dim_messages:
  "verify_dim_1d (0, 0) (example_world 0 (- 32) 1 (0, 0)) =
     (Inl (Exit 1),
      (example_world 0 (- 32) 1 (0, 0))\<lparr>cerr := ''image dimension 0 too small'' @ endl\<rparr>) \<and>
   verify_dim_1d (2147483647, 0) (example_world 0 (- 32) 1 (0, 0)) =
     (Inl (Exit 1),
      (example_world 0 (- 32) 1 (0, 0))\<lparr>cerr := ''image dimension 2147483647 too large'' @ endl\<rparr>) \<and>
   verify_dim_2d (0, 5) (example_world 0 (- 32) 2 (0, 0)) =
     (Inl (Exit 1),
      (example_world 0 (- 32) 2 (0, 0))\<lparr>cerr := ''image dimensions 0x5 too small'' @ endl\<rparr>) \<and>
   verify_dim_2d (65536, 32768) (example_world 0 (- 32) 2 (0, 0)) =
     (Inl (Exit 1),
      (example_world 0 (- 32) 2 (0, 0))\<lparr>cerr := ''image dimensions 65536x32768 too large'' @ endl\<rparr>)"
  by (simp add: verify_dim_1d_def verify_dim_2d_def Let_def run stop_defs const_defs ex_defs
      show_defs)

text \<open>
  C2. The claim is that validation is fatal exactly when an extent is below 1 or the
  product of the extents is at least \<open>2^31 - 1\<close>. The 2-D check computes the product
  in \<open>int64_t\<close>. For the extents \<open>2^32\<close> and \<open>2^32\<close> the product \<open>2^64\<close> is far above
  the limit, but in 64 bits it wraps around to 0, and \<open>verify_dim_2d\<close> returns without
  a diagnostic.
\<close>

theorem verify_dim_2d_overflow_accepted:
  "verify_dim_2d (4294967296, 4294967296) w = (Inr (), w) \<and>
   2 ^ 31 - 1 \<le> sint (4294967296 :: clong) * sint (4294967296 :: clong)"
  by (simp add: verify_dim_2d_def Let_def INT_MAX_def ret_def)


section \<open>A successful load\<close>

text \<open>
  When the 1-D loader returns, the extent of the container is the extent that the library
  reported, the buffer holds that many pixels, all from one read of the whole buffer
  that passed the quiet NaN of the precision as the null value, and the close of the
  file is the last call. The flag \<open>anynul\<close> that the read stores does not occur in the
  result.
\<close>

lemma read_image_data_1d_returns:
  assumes "read_image_data_1d T filename f w = (Inr img, w')"
    and "get_img_size (lib w) f 1 (0, 0) = (s, naxes)"
  shows "s = 0 \<and> sint (x1 img) = sint (fst naxes) \<and> 1 \<le> sint (x1 img) \<and>
    p1 img = Some (map (fst (snd (read_img (lib w) f (get_fits_type T) 1 (scast (x1 img))
                 (quiet_NaN T)))) [0..<nat (sint (x1 img))]) \<and>
    w' = w\<lparr>calls := calls w @
           [Fits_get_img_size f 1 (0, 0),
            Fits_read_img f (get_fits_type T) 1 (scast (x1 img)) (quiet_NaN T),
            Fits_close_file f]\<rparr>"
proof -
  from assms have v: "\<not> sint (fst naxes) < 1" "\<not> INT_MAX \<le> sint (fst naxes)"
    by (auto simp add: read_image_data_1d_def verify_dim_1d_def Let_def run lib_run stop_defs
        split: if_splits)
  then have c: "sint (scast (fst naxes) :: cint) = sint (fst naxes)"
    by (intro sint_scast_narrow) (simp_all add: INT_MAX_def)
  from assms v c show ?thesis
    by (auto simp add: read_image_data_1d_def verify_dim_1d_def alloc1_def valid1_def size1_def
        stored_def Let_def case_prod_beta run lib_run stop_defs sint_scast_widen
        split: if_splits)
qed

text \<open>
  When the 2-D loader returns, the extents of the container are the reported extents cast
  to \<open>int\<close>; the rest is as for the 1-D loader.
\<close>

lemma read_image_data_2d_returns:
  assumes "read_image_data_2d T filename f w = (Inr img, w')"
    and "get_img_size (lib w) f 2 (0, 0) = (s, naxes)"
  shows "s = 0 \<and> x2 img = scast (fst naxes) \<and> y2 img = scast (snd naxes) \<and>
    valid2 img \<and>
    p2 img = Some (map (fst (snd (read_img (lib w) f (get_fits_type T) 1 (scast (size2 img))
                 (quiet_NaN T)))) [0..<nat (sint (size2 img))]) \<and>
    w' = w\<lparr>calls := calls w @
           [Fits_get_img_size f 2 (0, 0),
            Fits_read_img f (get_fits_type T) 1 (scast (size2 img)) (quiet_NaN T),
            Fits_close_file f]\<rparr>"
  using assms
proof -
  let ?img = "\<lparr>x2 = scast (fst naxes), y2 = scast (snd naxes), p2 = None\<rparr>"
  from assms have v: "valid2 ?img"
    by (auto simp add: read_image_data_2d_def verify_dim_2d_def alloc2_def Let_def
        case_prod_beta run lib_run stop_defs split: if_splits)
  then have "0 \<le> sint (x2 ?img) * sint (y2 ?img)" "sint (x2 ?img) * sint (y2 ?img) < 2 ^ 31"
    by (simp_all add: valid2_def INT_MAX_def)
  then have "sint (x2 ?img * y2 ?img) = sint (x2 ?img) * sint (y2 ?img)"
    by (intro sint_mult_32) simp_all
  with v have n: "0 \<le> sint (size2 ?img)"
    by (simp add: size2_def valid2_def)
  from assms v n show ?thesis
    by (auto simp add: read_image_data_2d_def verify_dim_2d_def alloc2_def size2_def stored_def
        valid2_def Let_def case_prod_beta run lib_run stop_defs sint_scast_widen
        split: if_splits)
qed

text \<open>
  The casts keep the reported extents when their product fits into 64 bits.
\<close>

lemma read_image_data_2d_shape:
  assumes "read_image_data_2d T filename f w = (Inr img, w')"
    and "get_img_size (lib w) f 2 (0, 0) = (s, naxes)"
    and "sint (fst naxes) * sint (snd naxes) < 2 ^ 63"
  shows "sint (x2 img) = sint (fst naxes) \<and> sint (y2 img) = sint (snd naxes) \<and>
    sint (size2 img) = sint (fst naxes) * sint (snd naxes)"
proof -
  let ?a = "sint (fst naxes)" and ?b = "sint (snd naxes)"
  from assms(1,2) have v: "1 \<le> ?a" "1 \<le> ?b" "sint (fst naxes * snd naxes) < INT_MAX"
    by (auto simp add: read_image_data_2d_def verify_dim_2d_def Let_def case_prod_beta run lib_run
        stop_defs split: if_splits)
  from v have nn: "0 \<le> ?a * ?b" by simp
  with assms(3) have m: "sint (fst naxes * snd naxes) = ?a * ?b"
    by (intro sint_mult_64) simp_all
  with v have small: "?a * ?b < 2 ^ 31 - 1" by (simp add: INT_MAX_def)
  have "?a * 1 \<le> ?a * ?b" using v by (intro mult_left_mono) simp_all
  with small have a: "?a < 2 ^ 31" by simp
  have "1 * ?b \<le> ?a * ?b" using v by (intro mult_right_mono) simp_all
  with small have b: "?b < 2 ^ 31" by simp
  have ca: "sint (scast (fst naxes) :: cint) = ?a"
    using v a by (intro sint_scast_narrow) simp_all
  have cb: "sint (scast (snd naxes) :: cint) = ?b"
    using v b by (intro sint_scast_narrow) simp_all
  have xy: "x2 img = scast (fst naxes)" "y2 img = scast (snd naxes)"
    using read_image_data_2d_returns [OF assms(1,2)] by simp_all
  have "sint (x2 img * y2 img) = sint (x2 img) * sint (y2 img)"
    using xy ca cb nn small by (intro sint_mult_32) simp_all
  with xy ca cb show ?thesis by (simp add: size2_def)
qed

text \<open>
  C7. The claim is that every successful load allocates a container of the probed shape.
  For a file whose extents are 3 and \<open>2^62 + 2\<close> the product wraps around to a negative
  value in 64 bits, so the validation returns; the casts to \<open>int\<close> give 3 and 2, which
  are valid extents, and the load succeeds with a container of shape 3 by 2 after a
  read of 6 elements.
\<close>

theorem read_image_data_2d_truncated_shape:
  "read_image_data_2d float ''m.fits'' 1
     (example_world 0 (- 32) 2 (3, 4611686018427387906)) =
     (Inr \<lparr>x2 = 3, y2 = 2, p2 = Some [F32 0, F32 1, F32 2, F32 3, F32 4, F32 5]\<rparr>,
      \<lparr>lib = example_lib 0 (- 32) 2 (3, 4611686018427387906),
       calls = [Fits_get_img_size 1 2 (0, 0), Fits_read_img 1 42 1 6 (F32 0x7FC00000),
         Fits_close_file 1],
       cerr = []\<rparr>) \<and>
   sint (4611686018427387906 :: clong) = 2 ^ 62 + 2"
proof -
  have u: "map g [0..<6] = [g 0, g 1, g 2, g 3, g 4, g 5]" for g :: "nat \<Rightarrow> pixel"
    by (simp add: eval_nat_numeral)
  show ?thesis
    by (simp add: const_defs ex_defs read_image_data_2d_def verify_dim_2d_def
        alloc2_def valid2_def size2_def stored_def Let_def run lib_run stop_defs u)
qed


section \<open>The dispatch as a whole\<close>

text \<open>
  C1. Every run of \<open>from_image\<close> either ends the process, with \<open>EXIT_FAILURE\<close> or by the
  abort of a failed allocation, or returns a driver that wraps one container, for the
  precision whose storage tag the file has and the rank that is its axis count. The
  calls made follow the order of loading. A run that returns has made all seven steps,
  once each and in order, on the handle that the open gave: the library has answered
  every one of them with status 0, the first data unit is an image, the extents were
  read for the rank of the container and the pixels in one read of its whole size, and
  no diagnostic was written. A run that ends the process has made the first steps in
  order and then either has written a diagnostic, or has reported the non-zero status
  of its last call and ended with \<open>EXIT_FAILURE\<close>. No other result exists.
\<close>

theorem from_image_outcome:
  assumes "from_image settings w = (r, w')"
  shows "\<exists>cs. calls w' = calls w @ cs \<and>
    (case r of
       Inr d \<Rightarrow>
         follows_order cs \<and> length cs = 7 \<and> cerr w' = cerr w \<and>
         list_all (\<lambda>c. status_of (lib w) c = 0) cs \<and>
         take 4 cs =
           [Fits_open_file (source settings) READONLY,
            Fits_get_hdu_type (snd (open_file (lib w) (source settings) READONLY)),
            Fits_get_img_type (snd (open_file (lib w) (source settings) READONLY)),
            Fits_get_img_dim (snd (open_file (lib w) (source settings) READONLY))] \<and>
         snd (get_hdu_type (lib w) (snd (open_file (lib w) (source settings) READONLY))) =
           IMAGE_HDU \<and>
         (\<exists>T img. d = Driver T settings img \<and>
            get_fits_bitpix T =
              snd (get_img_type (lib w) (snd (open_file (lib w) (source settings) READONLY))) \<and>
            snd (get_img_dim (lib w) (snd (open_file (lib w) (source settings) READONLY))) =
              (case img of Img1 i \<Rightarrow> 1 | Img2 i \<Rightarrow> 2) \<and>
            drop 4 cs =
              (case img of
                 Img1 i \<Rightarrow>
                   [Fits_get_img_size (snd (open_file (lib w) (source settings) READONLY)) 1 (0, 0),
                    Fits_read_img (snd (open_file (lib w) (source settings) READONLY))
                      (get_fits_type T) 1 (scast (size1 i)) (quiet_NaN T),
                    Fits_close_file (snd (open_file (lib w) (source settings) READONLY))]
               | Img2 i \<Rightarrow>
                   [Fits_get_img_size (snd (open_file (lib w) (source settings) READONLY)) 2 (0, 0),
                    Fits_read_img (snd (open_file (lib w) (source settings) READONLY))
                      (get_fits_type T) 1 (scast (size2 i)) (quiet_NaN T),
                    Fits_close_file (snd (open_file (lib w) (source settings) READONLY))]))
     | Inl e \<Rightarrow>
         (e = Exit EXIT_FAILURE \<or> e = Abort) \<and>
         (follows_order cs \<and> cerr w' \<noteq> cerr w \<or>
          (\<exists>s. s \<noteq> 0 \<and> cs = butlast cs @ [Fits_report_error s] \<and>
             s = status_of (lib w) (last (butlast cs)) \<and>
             follows_order (butlast cs) \<and> cerr w' = cerr w \<and> e = Exit EXIT_FAILURE)))"
  using assms
  apply (simp add: load_defs Let_def case_prod_beta run lib_run stop_defs split: if_splits)
  apply (auto simp: follows_order_def size1_def size2_def alloc_diagnostic_def endl_def)
  done

theorem from_image_outcome_witness:
  "from_image \<lparr>source = ''m.fits''\<rparr> (example_world 0 (- 32) 2 (3, 2)) =
     (Inr (Driver float \<lparr>source = ''m.fits''\<rparr>
        (Img2 \<lparr>x2 = 3, y2 = 2, p2 = Some [F32 0, F32 1, F32 2, F32 3, F32 4, F32 5]\<rparr>)),
      \<lparr>lib = example_lib 0 (- 32) 2 (3, 2),
       calls = [Fits_open_file ''m.fits'' 0, Fits_get_hdu_type 1, Fits_get_img_type 1,
         Fits_get_img_dim 1, Fits_get_img_size 1 2 (0, 0),
         Fits_read_img 1 42 1 6 (F32 0x7FC00000), Fits_close_file 1],
       cerr = []\<rparr>) \<and>
   follows_order [Fits_open_file ''m.fits'' 0, Fits_get_hdu_type 1, Fits_get_img_type 1,
         Fits_get_img_dim 1, Fits_get_img_size 1 2 (0, 0),
         Fits_read_img 1 42 1 6 (F32 0x7FC00000), Fits_close_file 1] \<and>
   from_image \<lparr>source = ''c.fits''\<rparr> (example_world 0 (- 32) 3 (3, 2)) =
     (Inl (Exit 1),
      \<lparr>lib = example_lib 0 (- 32) 3 (3, 2),
       calls = [Fits_open_file ''c.fits'' 0, Fits_get_hdu_type 1, Fits_get_img_type 1,
         Fits_get_img_dim 1],
       cerr = ''expected 1-dimensional or 2-dimensional data, got 3-dimensional data'' @ endl\<rparr>) \<and>
   follows_order [Fits_open_file ''c.fits'' 0, Fits_get_hdu_type 1, Fits_get_img_type 1,
         Fits_get_img_dim 1]"
proof -
  have a: "from_image \<lparr>source = ''m.fits''\<rparr> (example_world 0 (- 32) 2 (3, 2)) =
     (Inr (Driver float \<lparr>source = ''m.fits''\<rparr>
        (Img2 \<lparr>x2 = 3, y2 = 2, p2 = Some [F32 0, F32 1, F32 2, F32 3, F32 4, F32 5]\<rparr>)),
      \<lparr>lib = example_lib 0 (- 32) 2 (3, 2),
       calls = [Fits_open_file ''m.fits'' 0, Fits_get_hdu_type 1, Fits_get_img_type 1,
         Fits_get_img_dim 1, Fits_get_img_size 1 2 (0, 0),
         Fits_read_img 1 42 1 6 (F32 0x7FC00000), Fits_close_file 1],
       cerr = []\<rparr>)"
    by (simp add: load_defs const_defs ex_defs size2_def stored_def Let_def run lib_run stop_defs
        eval_nat_numeral)
  have b: "from_image \<lparr>source = ''c.fits''\<rparr> (example_world 0 (- 32) 3 (3, 2)) =
     (Inl (Exit 1),
      \<lparr>lib = example_lib 0 (- 32) 3 (3, 2),
       calls = [Fits_open_file ''c.fits'' 0, Fits_get_hdu_type 1, Fits_get_img_type 1,
         Fits_get_img_dim 1],
       cerr = ''expected 1-dimensional or 2-dimensional data, got 3-dimensional data'' @ endl\<rparr>)"
    by (simp add: load_defs const_defs ex_defs show_defs Let_def run lib_run stop_defs)
  have e: "calls (example_world h t n x) = []" "cerr (example_world h t n x) = []"
    for h t n x
    by (simp_all add: ex_defs)
  show ?thesis
    using from_image_outcome [OF a] from_image_outcome [OF b] a b
    by (auto simp add: e endl_def)
qed


section \<open>A store that returns\<close>

text \<open>
  Storing checks every status as well: when \<open>write_image\<close> returns, the library has
  answered each of its four calls with status 0.
\<close>

lemma store_run:
  "bind (fits_create_file filename) k1 w =
     k1 (create_file (lib w) filename) (w\<lparr>calls := calls w @ [Fits_create_file filename]\<rparr>)"
  "bind (fits_create_img f bitpix naxis naxes) k2 w =
     k2 (create_img (lib w) f bitpix naxis naxes)
       (w\<lparr>calls := calls w @ [Fits_create_img f bitpix naxis naxes]\<rparr>)"
  "bind (fits_write_imgnull f dt fe ne a nv) k2 w =
     k2 (write_imgnull (lib w) f dt fe ne a nv)
       (w\<lparr>calls := calls w @ [Fits_write_imgnull f dt fe ne a nv]\<rparr>)"
  by (simp_all add: bind_def called_def fits_create_file_def fits_create_img_def
      fits_write_imgnull_def)




section \<open>No status reaches a caller\<close>

lemma from_image_no_status_propagated:
  assumes "from_image settings w = (r, w')"
  shows "no_status_propagated w r w'"
  using assms
  apply (simp add: load_defs Let_def case_prod_beta run lib_run stop_defs split: if_splits)
  apply (auto simp: no_status_propagated_def new_calls_def)
  done

lemma write_image_2d_no_status_propagated:
  assumes "write_image_2d T filename img w = (r, w')"
  shows "no_status_propagated w r w'"
  using assms
  by (auto simp add: write_image_2d_def Let_def case_prod_beta run lib_run store_run stop_defs
      fcheck_def fits_report_error_def no_status_propagated_def new_calls_def split: if_splits)

lemma write_image_1d_no_status_propagated:
  assumes "write_image_1d T filename img w = (r, w')"
  shows "no_status_propagated w r w'"
  using assms
  by (auto simp add: write_image_1d_def Let_def case_prod_beta run lib_run store_run stop_defs
      fcheck_def fits_report_error_def no_status_propagated_def new_calls_def split: if_splits)

text \<open>
  C8. For every status \<open>s\<close>, \<open>fcheck s\<close> does nothing when \<open>s\<close> is zero, and otherwise
  reports the error through the library's \<open>fits_report_error\<close> and ends the process
  with \<open>EXIT_FAILURE\<close>. Every status that the library returns on a call of a load or
  of a store (open, queries, read, create, write, close) goes through this check: in
  every run of \<open>from_image\<close> and of \<open>write_image\<close>, for both ranks, a call whose status is
  not zero is followed by the report of that status and by nothing else, the run then
  ends with \<open>EXIT_FAILURE\<close>, and a run that returns to its caller has seen status zero
  on every call.
\<close>

theorem status_checked_at_every_call:
  "(s = 0 \<longrightarrow> fcheck s w = (Inr (), w)) \<and>
   (s \<noteq> 0 \<longrightarrow>
      fcheck s w =
        (Inl (Exit EXIT_FAILURE), w\<lparr>calls := calls w @ [Fits_report_error s]\<rparr>)) \<and>
   (from_image settings w = (r, w') \<longrightarrow> no_status_propagated w r w') \<and>
   (write_image_2d T filename img2 w = (r2, w2) \<longrightarrow> no_status_propagated w r2 w2) \<and>
   (write_image_1d T filename img1 w = (r1, w1) \<longrightarrow> no_status_propagated w r1 w1)"
  using from_image_no_status_propagated [of settings w r w']
    write_image_2d_no_status_propagated [of T filename img2 w r2 w2]
    write_image_1d_no_status_propagated [of T filename img1 w r1 w1]
  by (simp add: fcheck_def fits_report_error_def bind_def called_def exit_def ret_def)

theorem status_checked_at_every_call_witness:
  "fcheck 0 unopened_world = (Inr (), unopened_world) \<and>
   fcheck 104 unopened_world =
     (Inl (Exit 1), unopened_world\<lparr>calls := [Fits_report_error 104]\<rparr>) \<and>
   from_image \<lparr>source = ''n.fits''\<rparr> unopened_world =
     (Inl (Exit 1),
      unopened_world\<lparr>calls := [Fits_open_file ''n.fits'' 0, Fits_report_error 104]\<rparr>) \<and>
   no_status_propagated unopened_world (Inl (Exit 1) :: stop + VDriver)
     (unopened_world\<lparr>calls := [Fits_open_file ''n.fits'' 0, Fits_report_error 104]\<rparr>) \<and>
   write_image_2d float ''o.fits'' \<lparr>x2 = 2, y2 = 1, p2 = Some [F32 0x3F800000, F32 0x7FC00000]\<rparr>
       (example_world 0 (- 32) 2 (2, 1)) =
     (Inr (),
      (example_world 0 (- 32) 2 (2, 1))\<lparr>calls :=
        [Fits_create_file ''o.fits'', Fits_create_img 1 (- 32) 2 [2, 1],
         Fits_write_imgnull 1 42 1 2 (Some [F32 0x3F800000, F32 0x7FC00000]) (F32 0x7FC00000),
         Fits_close_file 1]\<rparr>) \<and>
   no_status_propagated (example_world 0 (- 32) 2 (2, 1)) (Inr ())
     ((example_world 0 (- 32) 2 (2, 1))\<lparr>calls :=
        [Fits_create_file ''o.fits'', Fits_create_img 1 (- 32) 2 [2, 1],
         Fits_write_imgnull 1 42 1 2 (Some [F32 0x3F800000, F32 0x7FC00000]) (F32 0x7FC00000),
         Fits_close_file 1]\<rparr>) \<and>
   write_image_1d double ''p.fits'' \<lparr>x1 = 1, p1 = Some [F64 0x7FF8000000000000]\<rparr>
       (example_world 0 (- 64) 1 (1, 0)) =
     (Inr (),
      (example_world 0 (- 64) 1 (1, 0))\<lparr>calls :=
        [Fits_create_file ''p.fits'', Fits_create_img 1 (- 64) 1 [1],
         Fits_write_imgnull 1 82 1 1 (Some [F64 0x7FF8000000000000]) (F64 0x7FF8000000000000),
         Fits_close_file 1]\<rparr>) \<and>
   no_status_propagated (example_world 0 (- 64) 1 (1, 0)) (Inr ())
     ((example_world 0 (- 64) 1 (1, 0))\<lparr>calls :=
        [Fits_create_file ''p.fits'', Fits_create_img 1 (- 64) 1 [1],
         Fits_write_imgnull 1 82 1 1 (Some [F64 0x7FF8000000000000]) (F64 0x7FF8000000000000),
         Fits_close_file 1]\<rparr>)"
proof -
  have a: "from_image \<lparr>source = ''n.fits''\<rparr> unopened_world =
     (Inl (Exit 1),
      unopened_world\<lparr>calls := [Fits_open_file ''n.fits'' 0, Fits_report_error 104]\<rparr>)"
    by (simp add: load_defs const_defs ex_defs unopened_world_def Let_def run lib_run stop_defs)
  have b: "write_image_2d float ''o.fits''
       \<lparr>x2 = 2, y2 = 1, p2 = Some [F32 0x3F800000, F32 0x7FC00000]\<rparr>
       (example_world 0 (- 32) 2 (2, 1)) =
     (Inr (),
      (example_world 0 (- 32) 2 (2, 1))\<lparr>calls :=
        [Fits_create_file ''o.fits'', Fits_create_img 1 (- 32) 2 [2, 1],
         Fits_write_imgnull 1 42 1 2 (Some [F32 0x3F800000, F32 0x7FC00000]) (F32 0x7FC00000),
         Fits_close_file 1]\<rparr>)"
    by (simp add: write_image_2d_def const_defs ex_defs size2_def Let_def run lib_run store_run
        stop_defs fcheck_def)
  have c: "write_image_1d double ''p.fits'' \<lparr>x1 = 1, p1 = Some [F64 0x7FF8000000000000]\<rparr>
       (example_world 0 (- 64) 1 (1, 0)) =
     (Inr (),
      (example_world 0 (- 64) 1 (1, 0))\<lparr>calls :=
        [Fits_create_file ''p.fits'', Fits_create_img 1 (- 64) 1 [1],
         Fits_write_imgnull 1 82 1 1 (Some [F64 0x7FF8000000000000]) (F64 0x7FF8000000000000),
         Fits_close_file 1]\<rparr>)"
    by (simp add: write_image_1d_def const_defs ex_defs size1_def Let_def run lib_run store_run
        stop_defs fcheck_def)
  have e: "calls unopened_world = []" "calls (example_world h t n x) = []" for h t n x
    by (simp_all add: ex_defs unopened_world_def)
  show ?thesis
    using status_checked_at_every_call [of 0 unopened_world "\<lparr>source = ''n.fits''\<rparr>" _ _ float
        "''o.fits''" _ _ _ _ _ _]
      status_checked_at_every_call [of 104 unopened_world "\<lparr>source = ''n.fits''\<rparr>" _ _ float
        "''o.fits''" _ _ _ _ _ _]
      status_checked_at_every_call [where w = unopened_world, THEN conjunct2, THEN conjunct2,
        THEN conjunct1, THEN mp, OF a]
      status_checked_at_every_call [THEN conjunct2, THEN conjunct2, THEN conjunct2,
        THEN conjunct1, THEN mp, OF b]
      status_checked_at_every_call [THEN conjunct2, THEN conjunct2, THEN conjunct2,
        THEN conjunct2, THEN mp, OF c]
      a b c
    by (simp add: e EXIT_FAILURE_def)
qed


section \<open>Storing and loading back\<close>







end
